theory Spec2Isabelle
  imports Main
begin

section \<open>Values decoded from JSON\<close>

text \<open>
  The frontend handles whatever \<open>JSON.parse\<close> returns, so the model keeps JavaScript's
  dynamic values. Numbers are the integers the server sends (counts and percentages).
  An object is the list of its own properties.
\<close>

datatype jsval =
    JUndefined
  | JNull
  | JBool bool
  | JNum int
  | JStr string
  | JArr "jsval list"
  | JObj "(string \<times> jsval) list"

text \<open>
  \<open>v.k\<close> for a value that is neither \<open>null\<close> nor \<open>undefined\<close>: an object yields the
  property or \<open>undefined\<close>; the names read by this program are no properties of
  numbers, strings, booleans or arrays. Reading a property of \<open>null\<close> raises a
  TypeError; the callers below test for \<open>null\<close> before they use \<open>js_get\<close> wherever
  the value can be \<open>null\<close>.
\<close>

fun js_get :: "jsval \<Rightarrow> string \<Rightarrow> jsval" where
  "js_get (JObj kvs) k = (case map_of kvs k of None \<Rightarrow> JUndefined | Some v \<Rightarrow> v)"
| "js_get v k = JUndefined"

text \<open>
  \<open>a === b\<close>. Objects and arrays are equal only when they are the same allocation; the
  two sides of every comparison in this program come from different \<open>JSON.parse\<close> or
  HTTP results, so two objects are never identical there.
\<close>

fun strict_eq :: "jsval \<Rightarrow> jsval \<Rightarrow> bool" where
  "strict_eq JUndefined JUndefined = True"
| "strict_eq JNull JNull = True"
| "strict_eq (JBool a) (JBool b) = (a = b)"
| "strict_eq (JNum a) (JNum b) = (a = b)"
| "strict_eq (JStr a) (JStr b) = (a = b)"
| "strict_eq a b = False"

text \<open>Truthiness, as \<open>&&\<close>, \<open>||\<close> and \<open>if\<close> test it.\<close>

fun truthy :: "jsval \<Rightarrow> bool" where
  "truthy JUndefined = False"
| "truthy JNull = False"
| "truthy (JBool b) = b"
| "truthy (JNum n) = (n \<noteq> 0)"
| "truthy (JStr s) = (s \<noteq> [])"
| "truthy (JArr xs) = True"
| "truthy (JObj kvs) = True"

text \<open>\<open>Array.prototype.findIndex\<close>; \<open>None\<close> stands for \<open>-1\<close>.\<close>

fun findIndex :: "('a \<Rightarrow> bool) \<Rightarrow> 'a list \<Rightarrow> nat option" where
  "findIndex p [] = None"
| "findIndex p (x # xs) =
     (if p x then Some 0 else map_option Suc (findIndex p xs))"

section \<open>The connection hook (hooks/useWebSocket.js)\<close>

text \<open>
  A raw text frame matters to this program only through what \<open>JSON.parse\<close> makes of it,
  so a message is kept as that result: \<open>None\<close> when \<open>JSON.parse\<close> throws.
\<close>

type_synonym message = "jsval option"

text \<open>
  The hook's three state cells and three refs, followed by what the browser holds for
  it: the address and whether the \<open>WebSocket\<close> constructor accepts it (it throws a
  SyntaxError otherwise), the \<open>readyState\<close> of every socket created so far, and every
  \<open>setTimeout\<close> call so far with its delay in milliseconds and whether it is still
  pending. A socket and a timer handle are positions in these two lists.
\<close>

datatype readyState = CONNECTING | OPEN | CLOSING | CLOSED

record hook =
  messages :: "message list"
  isConnected :: bool
  error :: "string option"
  ws :: "nat option"
  reconnectTimeout :: "nat option"
  reconnectAttempts :: nat
  url :: string
  url_accepted :: bool
  sockets :: "readyState list"
  timers :: "(nat \<times> bool) list"


text \<open>The first render, lines 4 to 10.\<close>

definition useWebSocket :: "string \<Rightarrow> bool \<Rightarrow> hook" where
  "useWebSocket u ok =
     \<lparr>messages = [], isConnected = False, error = None, ws = None, reconnectTimeout = None,
      reconnectAttempts = 0, url = u, url_accepted = ok, sockets = [], timers = []\<rparr>"



definition onmessage :: "message \<Rightarrow> hook \<Rightarrow> hook" where
  "onmessage data s = s\<lparr>messages := messages s @ [data]\<rparr>"









subsection \<open>What the browser and React can do to the hook\<close>

text \<open>
  A socket fires \<open>open\<close> once, while it is connecting; \<open>message\<close> while it is open;
  \<open>close\<close> once, with a code the browser chooses, after which it is closed; a timer
  fires once unless it was cleared. An event that cannot happen leaves the hook as it is.
\<close>

datatype event =
    WsOpen nat
  | WsMessage nat message
  | WsError nat
  | WsClose nat nat
  | TimerFire nat
  | EffectRun
  | EffectCleanup












text \<open>Events of a session that is not opened anew: the effect does not run again.\<close>

definition same_session :: "event list \<Rightarrow> bool" where
  "same_session es = list_all (\<lambda>e. e \<noteq> EffectRun) es"

text \<open>
  Events of a run of consecutive losses without a manual close: no socket opens, no
  socket closes with code 1000, and the effect neither runs nor is cleaned up. Timers
  may fire, and sockets may report errors and messages.
\<close>

definition loss_run :: "event list \<Rightarrow> bool" where
  "loss_run es =
     list_all (\<lambda>e. case e of
                   WsOpen k \<Rightarrow> False
                 | WsClose k code \<Rightarrow> code \<noteq> 1000
                 | EffectRun \<Rightarrow> False
                 | EffectCleanup \<Rightarrow> False
                 | _ \<Rightarrow> True) es"

section \<open>The state of the Home component (App.js)\<close>

text \<open>
  The job object literal built by the submission handlers. Its \<open>id\<close> and \<open>type\<close> fields
  are named \<open>job_id\<close> and \<open>job_type\<close> here.
\<close>

record job =
  job_id :: jsval
  job_type :: string
  status :: string
  progress :: jsval
  completed :: jsval
  failed :: jsval
  total :: jsval

text \<open>
  What the component shows beside its state: toasts and console errors, in the order
  of the calls. A template literal is kept as its text with the interpolated values.
\<close>

datatype notice =
    Toast_success string "jsval list"
  | Toast_error string "jsval list"
  | Console_error string

record app =
  currentJob :: "job option"
  jobResults :: "jsval list"
  isLoading :: bool
  notices :: "notice list"

section \<open>Handling a WebSocket message (App.js, lines 30 to 92)\<close>

text \<open>The updater of the \<open>progress_update\<close> case, lines 40 to 46.\<close>

definition on_progress_update :: "jsval \<Rightarrow> job \<Rightarrow> job" where
  "on_progress_update d prev =
     prev\<lparr>progress := js_get d ''progress'',
          completed := js_get d ''completed'',
          failed := js_get d ''failed'',
          total := (if truthy (js_get d ''total'') then js_get d ''total'' else total prev)\<rparr>"

text \<open>The updater of the \<open>url_complete\<close> case, lines 52 to 61.\<close>

definition on_url_complete :: "jsval \<Rightarrow> jsval list \<Rightarrow> jsval list" where
  "on_url_complete d prev =
     (case findIndex (\<lambda>r. strict_eq (js_get r ''url'') (js_get d ''url'')) prev of
        Some existingIndex \<Rightarrow> prev[existingIndex := js_get d ''data'']
      | None \<Rightarrow> prev @ [js_get d ''data''])"

text \<open>The updater of the \<open>job_complete\<close> case, lines 69 to 76.\<close>

definition on_job_complete :: "jsval \<Rightarrow> job \<Rightarrow> job" where
  "on_job_complete d prev =
     prev\<lparr>status := ''completed'',
          progress := JNum 100,
          completed := js_get d ''completed'',
          failed := js_get d ''failed'',
          total := (if truthy (js_get d ''total'') then js_get d ''total'' else total prev)\<rparr>"

text \<open>\<open>currentJob && data.job_id === currentJob.id\<close>\<close>

definition is_current :: "jsval \<Rightarrow> app \<Rightarrow> bool" where
  "is_current d s =
     (case currentJob s of None \<Rightarrow> False | Some j \<Rightarrow> strict_eq (js_get d ''job_id'') (job_id j))"

text \<open>
  The \<open>switch\<close> on \<open>data.type\<close>, for a parsed message that is not \<open>null\<close>. The case labels
  are compared with \<open>===\<close>.
\<close>

definition dispatch :: "jsval \<Rightarrow> app \<Rightarrow> app" where
  "dispatch d s =
     (if strict_eq (js_get d ''type'') (JStr ''progress_update'') then
        (if is_current d s
         then s\<lparr>currentJob := map_option (on_progress_update d) (currentJob s)\<rparr>
         else s)
      else if strict_eq (js_get d ''type'') (JStr ''url_complete'') then
        (if truthy (js_get d ''success'') \<and> truthy (js_get d ''data'')
         then s\<lparr>jobResults := on_url_complete d (jobResults s)\<rparr>
         else s)
      else if strict_eq (js_get d ''type'') (JStr ''job_complete'') then
        (let s1 = s\<lparr>notices := notices s @
                      [Toast_success ''Scraping completed! ${data.completed} successful, ${data.failed} failed''
                         [js_get d ''completed'', js_get d ''failed'']],
                    isLoading := False\<rparr>
         in if is_current d s1
            then s1\<lparr>currentJob := map_option (on_job_complete d) (currentJob s1)\<rparr>
            else s1)
      else if strict_eq (js_get d ''type'') (JStr ''job_error'') then
        s\<lparr>notices := notices s @ [Toast_error ''Scraping failed: ${data.error}'' [js_get d ''error'']],
          isLoading := False\<rparr>
      else s)"

text \<open>
  The body of the \<open>try\<close> for one raw message: \<open>JSON.parse\<close> throws a SyntaxError
  (\<open>None\<close>), and reading \<open>data.type\<close> of \<open>null\<close> (or of \<open>undefined\<close>, which \<open>JSON.parse\<close>
  never returns) throws a TypeError. Both land in the \<open>catch\<close>, which logs to the console.
\<close>

definition applyMessage :: "message \<Rightarrow> app \<Rightarrow> app" where
  "applyMessage m s =
     (case m of
        None \<Rightarrow> s\<lparr>notices := notices s @ [Console_error ''Error parsing WebSocket message:'']\<rparr>
      | Some d \<Rightarrow>
          if d = JNull \<or> d = JUndefined
          then s\<lparr>notices := notices s @ [Console_error ''Error parsing WebSocket message:'']\<rparr>
          else dispatch d s)"

text \<open>
  The effect itself: it looks at \<open>messages[messages.length - 1]\<close> only, and does nothing
  on an empty list.
\<close>

definition messageEffect :: "message list \<Rightarrow> app \<Rightarrow> app" where
  "messageEffect msgs s = (if msgs \<noteq> [] then applyMessage (last msgs) s else s)"

section \<open>Submitting a job (App.js, lines 94 to 168)\<close>

text \<open>
  What leaves a statement of a handler instead of a value: the rejection of the awaited
  request, a TypeError for a property read of \<open>null\<close> or \<open>undefined\<close>, a ReferenceError
  for an identifier that is bound nowhere, or whatever a called function throws.
\<close>

datatype thrown = Rejected | TypeError | ReferenceError string | Thrown

text \<open>
  Both handlers call \<open>pollJobStatus\<close>. App.js neither imports nor declares this name, so
  it does not resolve in the module and is looked up among the globals of the page,
  which the model takes as a parameter: \<open>None\<close> for a name that is no global.
\<close>

type_synonym global_function = "jsval \<Rightarrow> app \<Rightarrow> app \<times> thrown option"

definition call_global ::
  "(string \<Rightarrow> global_function option) \<Rightarrow> string \<Rightarrow> jsval \<Rightarrow> app \<Rightarrow> app \<times> thrown option" where
  "call_global globals name arg s =
     (case globals name of
        None \<Rightarrow> (s, Some (ReferenceError name))
      | Some f \<Rightarrow> f arg s)"

text \<open>
  The body of the \<open>try\<close> of \<open>handleSingleUrlSubmit\<close>, with the state it leaves behind and
  what it throws, if anything. The request is given by its outcome: \<open>None\<close> when the
  promise rejects, otherwise \<open>response.data\<close>.
\<close>

definition handleSingleUrlSubmit_try ::
  "(string \<Rightarrow> global_function option) \<Rightarrow> jsval option \<Rightarrow> app \<Rightarrow> app \<times> thrown option" where
  "handleSingleUrlSubmit_try globals response s =
     (case response of
        None \<Rightarrow> (s, Some Rejected)
      | Some data \<Rightarrow>
          if data = JNull \<or> data = JUndefined then (s, Some TypeError)
          else if strict_eq (js_get data ''status'') (JStr ''started'') then
            call_global globals ''pollJobStatus'' (js_get data ''job_id'')
              (s\<lparr>currentJob := Some \<lparr>job_id = js_get data ''job_id'', job_type = ''single'',
                                      status = ''started'', progress = JNum 0, completed = JNum 0,
                                      failed = JNum 0, total = JNum 1\<rparr>,
                 notices := notices s @ [Toast_success ''Scraping started! Check progress below.'' []]\<rparr>)
          else
            (s\<lparr>notices := notices s @ [Toast_error ''${response.data.message}'' [js_get data ''message'']],
               isLoading := False\<rparr>, None))"

text \<open>The handler: the two updates before the \<open>try\<close>, the \<open>try\<close>, and the \<open>catch\<close>.\<close>

definition handleSingleUrlSubmit ::
  "(string \<Rightarrow> global_function option) \<Rightarrow> jsval option \<Rightarrow> app \<Rightarrow> app" where
  "handleSingleUrlSubmit globals response s =
     (case handleSingleUrlSubmit_try globals response (s\<lparr>isLoading := True, jobResults := []\<rparr>) of
        (s1, None) \<Rightarrow> s1
      | (s1, Some e) \<Rightarrow>
          s1\<lparr>notices := notices s1 @ [Toast_error ''Failed to start scraping'' [], Console_error ''Error:''],
             isLoading := False\<rparr>)"

definition handleBulkUpload_try ::
  "(string \<Rightarrow> global_function option) \<Rightarrow> jsval option \<Rightarrow> app \<Rightarrow> app \<times> thrown option" where
  "handleBulkUpload_try globals response s =
     (case response of
        None \<Rightarrow> (s, Some Rejected)
      | Some data \<Rightarrow>
          if data = JNull \<or> data = JUndefined then (s, Some TypeError)
          else if strict_eq (js_get data ''status'') (JStr ''started'') then
            call_global globals ''pollJobStatus'' (js_get data ''job_id'')
              (s\<lparr>currentJob := Some \<lparr>job_id = js_get data ''job_id'', job_type = ''bulk'',
                                      status = ''started'', progress = JNum 0, completed = JNum 0,
                                      failed = JNum 0, total = JNum 0\<rparr>,
                 notices := notices s @ [Toast_success ''${response.data.message}'' [js_get data ''message'']]\<rparr>)
          else
            (s\<lparr>notices := notices s @ [Toast_error ''${response.data.message}'' [js_get data ''message'']],
               isLoading := False\<rparr>, None))"

definition handleBulkUpload ::
  "(string \<Rightarrow> global_function option) \<Rightarrow> jsval option \<Rightarrow> app \<Rightarrow> app" where
  "handleBulkUpload globals response s =
     (case handleBulkUpload_try globals response (s\<lparr>isLoading := True, jobResults := []\<rparr>) of
        (s1, None) \<Rightarrow> s1
      | (s1, Some e) \<Rightarrow>
          s1\<lparr>notices := notices s1 @ [Toast_error ''Failed to start bulk scraping'' [], Console_error ''Error:''],
             isLoading := False\<rparr>)"

text \<open>The page as the repository builds it: no script defines a global of that name.\<close>

definition page_globals :: "string \<Rightarrow> global_function option" where
  "page_globals name = None"

text \<open>The first render of \<open>Home\<close>, and the response that reports a started job.\<close>

definition Home :: app where
  "Home = \<lparr>currentJob = None, jobResults = [], isLoading = False, notices = []\<rparr>"

definition started_response :: "string \<Rightarrow> jsval" where
  "started_response jid =
     JObj [(''status'', JStr ''started''), (''job_id'', JStr jid), (''message'', JStr ''Bulk scraping started'')]"

section \<open>Models used by the properties\<close>

subsection \<open>Arrivals and processing steps\<close>

text \<open>
  The hook appends each arriving message to \<open>messages\<close>; the effect above runs when
  React next runs effects, which may be after several arrivals.
\<close>

datatype action = Arrive message | Process

fun act :: "action \<Rightarrow> hook \<times> app \<Rightarrow> hook \<times> app" where
  "act (Arrive m) (h, s) = (onmessage m h, s)"
| "act Process (h, s) = (h, messageEffect (messages h) s)"

definition run :: "action list \<Rightarrow> hook \<times> app \<Rightarrow> hook \<times> app" where
  "run acts st = fold act acts st"

fun arrivals :: "action list \<Rightarrow> message list" where
  "arrivals [] = []"
| "arrivals (Arrive m # acts) = m # arrivals acts"
| "arrivals (Process # acts) = arrivals acts"

text \<open>The states a consumer sees after each message of a list is applied in turn.\<close>

fun snapshots :: "message list \<Rightarrow> app \<Rightarrow> app list" where
  "snapshots [] s = []"
| "snapshots (m # ms) s = applyMessage m s # snapshots ms (applyMessage m s)"

definition observed_progress :: "app \<Rightarrow> jsval option" where
  "observed_progress s = map_option progress (currentJob s)"

text \<open>Order on observed progress values: both are numbers and the first is not larger.\<close>

fun le_num :: "jsval option \<Rightarrow> jsval option \<Rightarrow> bool" where
  "le_num (Some (JNum a)) (Some (JNum b)) = (a \<le> b)"
| "le_num x y = False"

subsection \<open>Kinds of events\<close>

definition is_progress_update :: "jsval \<Rightarrow> bool" where
  "is_progress_update d = strict_eq (js_get d ''type'') (JStr ''progress_update'')"

definition is_url_complete :: "jsval \<Rightarrow> bool" where
  "is_url_complete d = strict_eq (js_get d ''type'') (JStr ''url_complete'')"

definition is_job_error :: "jsval \<Rightarrow> bool" where
  "is_job_error d = strict_eq (js_get d ''type'') (JStr ''job_error'')"

text \<open>A \<open>url_complete\<close> event that passes the test \<open>data.success && data.data\<close>.\<close>

definition is_item_success :: "jsval \<Rightarrow> bool" where
  "is_item_success d =
     (is_url_complete d \<and> truthy (js_get d ''success'') \<and> truthy (js_get d ''data''))"

text \<open>The test of \<open>findIndex\<close>: a stored result whose own \<open>url\<close> is the key.\<close>

definition has_key :: "jsval \<Rightarrow> jsval \<Rightarrow> bool" where
  "has_key k r = strict_eq (js_get r ''url'') k"

text \<open>The payload of an event carries the event's \<open>url\<close> as its own \<open>url\<close>.\<close>

definition payload_keyed :: "jsval \<Rightarrow> bool" where
  "payload_keyed d = has_key (js_get d ''url'') (js_get d ''data'')"

subsection \<open>Sample states and events\<close>

definition tracking :: "string \<Rightarrow> string \<Rightarrow> int \<Rightarrow> int \<Rightarrow> int \<Rightarrow> int \<Rightarrow> app" where
  "tracking jid st p c f t =
     \<lparr>currentJob = Some \<lparr>job_id = JStr jid, job_type = ''bulk'', status = st,
                           progress = JNum p, completed = JNum c, failed = JNum f, total = JNum t\<rparr>,
      jobResults = [], isLoading = True, notices = []\<rparr>"

definition progress_event :: "string \<Rightarrow> int \<Rightarrow> int \<Rightarrow> int \<Rightarrow> jsval" where
  "progress_event jid p c f =
     JObj [(''type'', JStr ''progress_update''), (''job_id'', JStr jid),
           (''progress'', JNum p), (''completed'', JNum c), (''failed'', JNum f)]"

definition item_event :: "string \<Rightarrow> string \<Rightarrow> jsval \<Rightarrow> jsval" where
  "item_event jid u payload =
     JObj [(''type'', JStr ''url_complete''), (''job_id'', JStr jid),
           (''success'', JBool True), (''url'', JStr u), (''data'', payload)]"

definition error_event :: "string \<Rightarrow> string \<Rightarrow> jsval" where
  "error_event jid msg =
     JObj [(''type'', JStr ''job_error''), (''job_id'', JStr jid), (''error'', JStr msg)]"

section \<open>Properties of the message handler\<close>

subsection \<open>What each kind of event does\<close>

lemma apply_progress_update:
  "is_progress_update d \<Longrightarrow>
   applyMessage (Some d) s =
     (if is_current d s
      then s\<lparr>currentJob := map_option (on_progress_update d) (currentJob s)\<rparr>
      else s)"
  unfolding is_progress_update_def applyMessage_def dispatch_def by auto

lemma strict_eq_JStr: "strict_eq v (JStr x) = (v = JStr x)"
  by (cases v) auto

lemma apply_url_complete:
  "is_url_complete d \<Longrightarrow>
   applyMessage (Some d) s =
     (if truthy (js_get d ''success'') \<and> truthy (js_get d ''data'')
      then s\<lparr>jobResults := on_url_complete d (jobResults s)\<rparr>
      else s)"
  unfolding is_url_complete_def applyMessage_def dispatch_def
  by (auto simp: strict_eq_JStr)

lemma apply_job_error:
  "is_job_error d \<Longrightarrow>
   applyMessage (Some d) s =
     s\<lparr>notices := notices s @ [Toast_error ''Scraping failed: ${data.error}'' [js_get d ''error'']],
       isLoading := False\<rparr>"
  unfolding is_job_error_def applyMessage_def dispatch_def
  by (auto simp: strict_eq_JStr)

lemma apply_item_success:
  "is_item_success d \<Longrightarrow>
   applyMessage (Some d) s = s\<lparr>jobResults := on_url_complete d (jobResults s)\<rparr>"
  by (simp add: is_item_success_def apply_url_complete)

lemma on_progress_update_fields:
  "job_id (on_progress_update d j) = job_id j"
  "status (on_progress_update d j) = status j"
  "progress (on_progress_update d j) = js_get d ''progress''"
  "completed (on_progress_update d j) = js_get d ''completed''"
  "failed (on_progress_update d j) = js_get d ''failed''"
  by (simp_all add: on_progress_update_def)

lemma sample_event_kinds:
  "is_progress_update (progress_event jid p c f)"
  "is_url_complete (item_event jid u payload)"
  "is_job_error (error_event jid msg)"
  "is_item_success (item_event jid u (JObj kvs))"
  by (simp_all add: is_progress_update_def is_url_complete_def is_job_error_def is_item_success_def
      progress_event_def item_event_def error_event_def)

lemma sample_current:
  "is_current (progress_event jid p c f) (tracking jid' st p' c' f' t') = (jid = jid')"
  "is_current (item_event jid u payload) (tracking jid' st p' c' f' t') = (jid = jid')"
  "is_current (error_event jid msg) (tracking jid' st p' c' f' t') = (jid = jid')"
  by (simp_all add: is_current_def tracking_def progress_event_def item_event_def error_event_def)

subsection \<open>Terminal states\<close>

text \<open>
  C1, as the claim states it, fails: a job that is \<open>completed\<close> with progress 100 and
  counts 5 and 1 receives a \<open>progress_update\<close> for its own id, and is then shown with
  progress 40 and counts 2 and 0 (its status is still \<open>completed\<close>).
\<close>

theorem terminal_progress_overwritten:
  "map_option status (currentJob (tracking ''J1'' ''completed'' 100 5 1 6)) = Some ''completed'' \<and>
   map_option (\<lambda>j. (progress j, completed j, failed j))
     (currentJob (tracking ''J1'' ''completed'' 100 5 1 6)) = Some (JNum 100, JNum 5, JNum 1) \<and>
   map_option (\<lambda>j. (progress j, completed j, failed j))
     (currentJob (applyMessage (Some (progress_event ''J1'' 40 2 0))
        (tracking ''J1'' ''completed'' 100 5 1 6))) = Some (JNum 40, JNum 2, JNum 0)"
  by (simp add: apply_progress_update sample_event_kinds sample_current on_progress_update_fields)
    (simp add: tracking_def progress_event_def on_progress_update_fields)

text \<open>
  C1, amended: in every state, terminal or not, a \<open>progress_update\<close> or \<open>url_complete\<close>
  event leaves the status as it is; a \<open>url_complete\<close> event leaves the whole job as it
  is; a \<open>progress_update\<close> for the tracked job replaces progress, completed and failed by
  the event's values, whatever the status.
\<close>

theorem status_kept_by_progress_and_item_events:
  "(is_progress_update d \<or> is_url_complete d \<longrightarrow>
      map_option status (currentJob (applyMessage (Some d) s)) = map_option status (currentJob s)) \<and>
   (is_url_complete d \<longrightarrow> currentJob (applyMessage (Some d) s) = currentJob s) \<and>
   (is_progress_update d \<and> is_current d s \<longrightarrow>
      map_option (\<lambda>j. (progress j, completed j, failed j)) (currentJob (applyMessage (Some d) s))
        = Some (js_get d ''progress'', js_get d ''completed'', js_get d ''failed''))"
  by (auto simp: apply_progress_update apply_url_complete option.map_comp comp_def is_current_def
      on_progress_update_fields split: option.splits)

theorem status_kept_by_progress_and_item_events_witness:
  "is_progress_update (progress_event ''J1'' 40 2 0) \<and>
   is_current (progress_event ''J1'' 40 2 0) (tracking ''J1'' ''completed'' 100 5 1 6) \<and>
   map_option status (currentJob (applyMessage (Some (progress_event ''J1'' 40 2 0))
      (tracking ''J1'' ''completed'' 100 5 1 6))) = Some ''completed'' \<and>
   map_option (\<lambda>j. (progress j, completed j, failed j))
     (currentJob (applyMessage (Some (progress_event ''J1'' 40 2 0))
        (tracking ''J1'' ''completed'' 100 5 1 6))) = Some (JNum 40, JNum 2, JNum 0)"
  using status_kept_by_progress_and_item_events
    [of "progress_event ''J1'' 40 2 0" "tracking ''J1'' ''completed'' 100 5 1 6"]
  by (simp add: sample_event_kinds sample_current) (simp add: tracking_def progress_event_def on_progress_update_fields)

subsection \<open>Events of another job\<close>

text \<open>
  C2 at a failing input: the tracked job is \<open>J_new\<close> with no results yet, and a
  successful \<open>url_complete\<close> event of \<open>J_old\<close> arrives. The \<open>url_complete\<close> case never
  compares \<open>job_id\<close>, so the result of the old job enters the result list.
\<close>

theorem stale_item_enters_results:
  "\<not> is_current (item_event ''J_old'' ''a.com'' (JObj [(''url'', JStr ''a.com'')]))
        (tracking ''J_new'' ''started'' 0 0 0 0) \<and>
   jobResults (tracking ''J_new'' ''started'' 0 0 0 0) = [] \<and>
   applyMessage (Some (item_event ''J_old'' ''a.com'' (JObj [(''url'', JStr ''a.com'')])))
     (tracking ''J_new'' ''started'' 0 0 0 0)
   = (tracking ''J_new'' ''started'' 0 0 0 0)\<lparr>jobResults := [JObj [(''url'', JStr ''a.com'')]]\<rparr>"
  by (simp add: apply_item_success sample_event_kinds sample_current)
    (simp add: on_url_complete_def tracking_def item_event_def)

subsection \<open>Job errors\<close>

text \<open>
  C3 at a failing input: a \<open>job_error\<close> event for the tracked job \<open>J1\<close> shows a toast and
  ends the loading state; the job keeps the status \<open>started\<close>.
\<close>

theorem job_error_keeps_status:
  "is_current (error_event ''J1'' ''boom'') (tracking ''J1'' ''started'' 0 0 0 0) \<and>
   applyMessage (Some (error_event ''J1'' ''boom'')) (tracking ''J1'' ''started'' 0 0 0 0)
   = (tracking ''J1'' ''started'' 0 0 0 0)
       \<lparr>notices := [Toast_error ''Scraping failed: ${data.error}'' [JStr ''boom'']],
        isLoading := False\<rparr> \<and>
   map_option status
     (currentJob (applyMessage (Some (error_event ''J1'' ''boom'')) (tracking ''J1'' ''started'' 0 0 0 0)))
   = Some ''started''"
  by (simp add: apply_job_error sample_event_kinds sample_current)
    (simp add: tracking_def error_event_def)

subsection \<open>Upserting results\<close>

lemma findIndex_update:
  "p v \<Longrightarrow> findIndex p xs = Some i \<Longrightarrow> findIndex p (xs[i := v]) = Some i"
proof (induction xs arbitrary: i)
  case Nil
  then show ?case by simp
next
  case (Cons x xs)
  then show ?case by (cases i) (auto split: if_splits)
qed

lemma findIndex_snoc:
  "p v \<Longrightarrow> findIndex p xs = None \<Longrightarrow> findIndex p (xs @ [v]) = Some (length xs)"
  by (induction xs) (auto split: if_splits)

lemma on_url_complete_twice:
  assumes "payload_keyed d"
  shows "on_url_complete d (on_url_complete d rs) = on_url_complete d rs"
proof (cases "findIndex (has_key (js_get d ''url'')) rs")
  case None
  with assms show ?thesis
    using findIndex_snoc [of "has_key (js_get d ''url'')" "js_get d ''data''" rs]
    by (simp add: on_url_complete_def payload_keyed_def has_key_def [abs_def])
next
  case (Some i)
  with assms show ?thesis
    using findIndex_update [of "has_key (js_get d ''url'')" "js_get d ''data''" rs i]
    by (simp add: on_url_complete_def payload_keyed_def has_key_def [abs_def])
qed

lemma filter_upsert:
  "p v \<Longrightarrow>
   filter p (case findIndex p xs of Some i \<Rightarrow> xs[i := v] | None \<Rightarrow> xs @ [v])
     = v # tl (filter p xs)"
proof (induction xs)
  case Nil
  then show ?case by simp
next
  case (Cons x xs)
  then show ?case
    by (cases "findIndex p xs") (auto split: if_splits)
qed

lemma filter_on_url_complete:
  "payload_keyed d \<Longrightarrow>
   filter (has_key (js_get d ''url'')) (on_url_complete d rs)
     = js_get d ''data'' # tl (filter (has_key (js_get d ''url'')) rs)"
  using filter_upsert [of "has_key (js_get d ''url'')" "js_get d ''data''" rs]
  by (simp add: on_url_complete_def payload_keyed_def has_key_def [abs_def])

text \<open>
  C5, as the claim states it, fails: the handler looks for a stored result whose own
  \<open>url\<close> property equals the event's \<open>url\<close>. A payload that carries no such property
  is never found again, and the same event applied twice leaves two entries.
\<close>

theorem same_item_twice_grows:
  "is_item_success (item_event ''J1'' ''a.com'' (JObj [(''emails'', JArr [])])) \<and>
   length (jobResults (applyMessage (Some (item_event ''J1'' ''a.com'' (JObj [(''emails'', JArr [])])))
     (tracking ''J1'' ''started'' 0 0 0 0))) = 1 \<and>
   length (jobResults (applyMessage (Some (item_event ''J1'' ''a.com'' (JObj [(''emails'', JArr [])])))
     (applyMessage (Some (item_event ''J1'' ''a.com'' (JObj [(''emails'', JArr [])])))
     (tracking ''J1'' ''started'' 0 0 0 0)))) = 2"
  by (simp add: apply_item_success sample_event_kinds)
    (simp add: on_url_complete_def tracking_def item_event_def)

text \<open>
  C5, amended: for successful \<open>url_complete\<close> events whose payload carries the event's
  \<open>url\<close> as its own \<open>url\<close>, applying the same event twice gives the result list that
  applying it once gives; and when the result list holds at most one entry with that
  \<open>url\<close>, two successive events for it leave exactly one such entry, the second payload.
  The stored results are truthy, as every payload that passed \<open>data.success && data.data\<close>
  is, so that reading \<open>r.url\<close> does not throw.
\<close>

theorem upsert_last_write_wins:
  "(list_all truthy (jobResults s) \<and> is_item_success d \<and> payload_keyed d \<longrightarrow>
      jobResults (applyMessage (Some d) (applyMessage (Some d) s))
        = jobResults (applyMessage (Some d) s)) \<and>
   (list_all truthy (jobResults s) \<and>
    is_item_success d1 \<and> payload_keyed d1 \<and> is_item_success d2 \<and> payload_keyed d2 \<and>
    js_get d1 ''url'' = js_get d2 ''url'' \<and>
    length (filter (has_key (js_get d2 ''url'')) (jobResults s)) \<le> 1 \<longrightarrow>
      filter (has_key (js_get d2 ''url''))
        (jobResults (applyMessage (Some d2) (applyMessage (Some d1) s))) = [js_get d2 ''data''])"
proof (intro conjI impI)
  assume "list_all truthy (jobResults s) \<and> is_item_success d \<and> payload_keyed d"
  then show "jobResults (applyMessage (Some d) (applyMessage (Some d) s))
        = jobResults (applyMessage (Some d) s)"
    by (simp add: apply_item_success on_url_complete_twice)
next
  assume a: "list_all truthy (jobResults s) \<and>
    is_item_success d1 \<and> payload_keyed d1 \<and> is_item_success d2 \<and> payload_keyed d2 \<and>
    js_get d1 ''url'' = js_get d2 ''url'' \<and>
    length (filter (has_key (js_get d2 ''url'')) (jobResults s)) \<le> 1"
  then have "tl (filter (has_key (js_get d2 ''url'')) (jobResults s)) = []"
    by (cases "filter (has_key (js_get d2 ''url'')) (jobResults s)") auto
  with a show "filter (has_key (js_get d2 ''url''))
        (jobResults (applyMessage (Some d2) (applyMessage (Some d1) s))) = [js_get d2 ''data'']"
    using filter_on_url_complete [of d1 "jobResults s"]
    by (simp add: apply_item_success filter_on_url_complete)
qed

lemma sample_payload_keyed:
  "payload_keyed (item_event jid u (JObj ((''url'', JStr u) # kvs)))"
  by (simp add: payload_keyed_def has_key_def item_event_def)

theorem upsert_last_write_wins_witness:
  "list_all truthy (jobResults (tracking ''J1'' ''started'' 0 0 0 0)) \<and>
   jobResults
     (applyMessage (Some (item_event ''J1'' ''a.com'' (JObj [(''url'', JStr ''a.com''), (''v'', JNum 1)])))
       (applyMessage (Some (item_event ''J1'' ''a.com'' (JObj [(''url'', JStr ''a.com''), (''v'', JNum 1)])))
         (tracking ''J1'' ''started'' 0 0 0 0)))
     = [JObj [(''url'', JStr ''a.com''), (''v'', JNum 1)]] \<and>
   is_item_success (item_event ''J1'' ''a.com'' (JObj [(''url'', JStr ''a.com''), (''v'', JNum 1)])) \<and>
   payload_keyed (item_event ''J1'' ''a.com'' (JObj [(''url'', JStr ''a.com''), (''v'', JNum 1)])) \<and>
   is_item_success (item_event ''J1'' ''a.com'' (JObj [(''url'', JStr ''a.com''), (''v'', JNum 2)])) \<and>
   payload_keyed (item_event ''J1'' ''a.com'' (JObj [(''url'', JStr ''a.com''), (''v'', JNum 2)])) \<and>
   length (filter (has_key (JStr ''a.com'')) (jobResults (tracking ''J1'' ''started'' 0 0 0 0))) \<le> 1 \<and>
   filter (has_key (JStr ''a.com''))
     (jobResults
       (applyMessage (Some (item_event ''J1'' ''a.com'' (JObj [(''url'', JStr ''a.com''), (''v'', JNum 2)])))
         (applyMessage (Some (item_event ''J1'' ''a.com'' (JObj [(''url'', JStr ''a.com''), (''v'', JNum 1)])))
           (tracking ''J1'' ''started'' 0 0 0 0))))
     = [JObj [(''url'', JStr ''a.com''), (''v'', JNum 2)]]"
  using upsert_last_write_wins
    [of "tracking ''J1'' ''started'' 0 0 0 0"
        "item_event ''J1'' ''a.com'' (JObj [(''url'', JStr ''a.com''), (''v'', JNum 1)])"
        "item_event ''J1'' ''a.com'' (JObj [(''url'', JStr ''a.com''), (''v'', JNum 1)])"
        "item_event ''J1'' ''a.com'' (JObj [(''url'', JStr ''a.com''), (''v'', JNum 2)])"]
  by (simp add: sample_event_kinds sample_payload_keyed apply_item_success)
    (simp add: item_event_def tracking_def on_url_complete_def)

subsection \<open>Observed progress\<close>

lemma is_current_progress_update:
  "is_progress_update d' \<Longrightarrow> is_current d (applyMessage (Some d') s) = is_current d s"
  by (auto simp: apply_progress_update is_current_def on_progress_update_fields split: option.splits)

lemma observed_snapshots:
  "list_all (\<lambda>d. is_progress_update d \<and> is_current d s) ds \<Longrightarrow>
   map observed_progress (snapshots (map Some ds) s) = map (\<lambda>d. Some (js_get d ''progress'')) ds"
proof (induction ds arbitrary: s)
  case Nil
  then show ?case by simp
next
  case (Cons d ds)
  from Cons.prems have d: "is_progress_update d" "is_current d s"
    and rest: "list_all (\<lambda>e. is_progress_update e \<and> is_current e (applyMessage (Some d) s)) ds"
    by (simp_all add: is_current_progress_update)
  from d have "observed_progress (applyMessage (Some d) s) = Some (js_get d ''progress'')"
    by (auto simp: apply_progress_update observed_progress_def is_current_def
        on_progress_update_fields split: option.splits)
  with Cons.IH [OF rest] show ?case by simp
qed

text \<open>
  C9, as the claim states it, fails: the handler copies the event's \<open>progress\<close> field and
  compares nothing. Two events for the tracked job with \<open>completed + failed\<close> rising from
  1 to 2 and \<open>progress\<close> 50, then 10, are observed as 50, then 10; the status is \<open>started\<close>.
\<close>

theorem progress_can_decrease:
  "list_all (\<lambda>d. is_progress_update d \<and> is_current d (tracking ''J1'' ''started'' 0 0 0 4))
     [progress_event ''J1'' 50 1 0, progress_event ''J1'' 10 2 0] \<and>
   map (\<lambda>d. (js_get d ''completed'', js_get d ''failed''))
     [progress_event ''J1'' 50 1 0, progress_event ''J1'' 10 2 0]
     = [(JNum 1, JNum 0), (JNum 2, JNum 0)] \<and>
   map observed_progress
     (snapshots [Some (progress_event ''J1'' 50 1 0), Some (progress_event ''J1'' 10 2 0)]
        (tracking ''J1'' ''started'' 0 0 0 4))
   = [Some (JNum 50), Some (JNum 10)]"
  by (simp add: apply_progress_update is_progress_update_def is_current_def observed_progress_def
      on_progress_update_fields progress_event_def tracking_def)

text \<open>
  C9, amended: for all sequences of \<open>progress_update\<close> events for the tracked job whose
  \<open>progress\<close> fields are numbers that never decrease, starting at or above the progress
  shown before, the progress observed after each event never decreases: it is that
  event's \<open>progress\<close> field.
\<close>

theorem progress_follows_events:
  assumes "list_all (\<lambda>d. is_progress_update d \<and> is_current d s) ds"
    and "sorted_wrt le_num (observed_progress s # map (\<lambda>d. Some (js_get d ''progress'')) ds)"
  shows "map observed_progress (snapshots (map Some ds) s)
           = map (\<lambda>d. Some (js_get d ''progress'')) ds \<and>
         sorted_wrt le_num (observed_progress s # map observed_progress (snapshots (map Some ds) s))"
  using assms by (simp only: observed_snapshots simp_thms)

theorem progress_follows_events_witness:
  "list_all (\<lambda>d. is_progress_update d \<and> is_current d (tracking ''J1'' ''started'' 0 0 0 4))
     [progress_event ''J1'' 25 1 0, progress_event ''J1'' 50 1 1] \<and>
   sorted_wrt le_num (observed_progress (tracking ''J1'' ''started'' 0 0 0 4) #
     map (\<lambda>d. Some (js_get d ''progress'')) [progress_event ''J1'' 25 1 0, progress_event ''J1'' 50 1 1]) \<and>
   map observed_progress
     (snapshots (map Some [progress_event ''J1'' 25 1 0, progress_event ''J1'' 50 1 1])
        (tracking ''J1'' ''started'' 0 0 0 4))
     = map (\<lambda>d. Some (js_get d ''progress'')) [progress_event ''J1'' 25 1 0, progress_event ''J1'' 50 1 1] \<and>
   sorted_wrt le_num (observed_progress (tracking ''J1'' ''started'' 0 0 0 4) #
     map observed_progress
       (snapshots (map Some [progress_event ''J1'' 25 1 0, progress_event ''J1'' 50 1 1])
          (tracking ''J1'' ''started'' 0 0 0 4)))"
proof -
  have a: "list_all (\<lambda>d. is_progress_update d \<and> is_current d (tracking ''J1'' ''started'' 0 0 0 4))
     [progress_event ''J1'' 25 1 0, progress_event ''J1'' 50 1 1]"
    by (simp add: sample_event_kinds sample_current)
  have b: "sorted_wrt le_num (observed_progress (tracking ''J1'' ''started'' 0 0 0 4) #
     map (\<lambda>d. Some (js_get d ''progress'')) [progress_event ''J1'' 25 1 0, progress_event ''J1'' 50 1 1])"
    by (simp add: observed_progress_def tracking_def progress_event_def)
  from a b progress_follows_events [OF a b] show ?thesis by blast
qed

subsection \<open>Which messages are applied\<close>

lemma messageEffect_snoc: "messageEffect (ms @ [m]) s = applyMessage m s"
  by (simp add: messageEffect_def)

lemma run_append: "run (xs @ ys) st = run ys (run xs st)"
  by (simp add: run_def)

lemma run_one_by_one:
  "run (concat (map (\<lambda>m. [Arrive m, Process]) ms)) (h, s)
     = (h\<lparr>messages := messages h @ ms\<rparr>, fold applyMessage ms s)"
proof (induction ms arbitrary: h s)
  case Nil
  then show ?case by (simp add: run_def)
next
  case (Cons m ms)
  have "run (concat (map (\<lambda>m. [Arrive m, Process]) (m # ms))) (h, s)
      = run (concat (map (\<lambda>m. [Arrive m, Process]) ms)) (onmessage m h, applyMessage m s)"
    by (simp add: run_def onmessage_def messageEffect_snoc)
  then show ?case by (simp add: Cons.IH) (simp add: onmessage_def)
qed

lemma run_arrivals: "run (map Arrive ms) (h, s) = (h\<lparr>messages := messages h @ ms\<rparr>, s)"
proof (induction ms arbitrary: h)
  case Nil
  then show ?case by (simp add: run_def)
next
  case (Cons m ms)
  have "run (map Arrive (m # ms)) (h, s) = run (map Arrive ms) (onmessage m h, s)"
    by (simp add: run_def)
  then show ?case by (simp add: Cons.IH) (simp add: onmessage_def)
qed

text \<open>
  C10, as the claim states it, fails: two messages arrive before the effect runs, a
  \<open>progress_update\<close> to 40 and then a \<open>url_complete\<close>. The effect looks at the last
  message only, so the progress stays 0, where applying both in order gives 40.
\<close>

theorem earlier_message_skipped:
  "arrivals [Arrive (Some (progress_event ''J1'' 40 2 0)),
             Arrive (Some (item_event ''J1'' ''a.com'' (JObj [(''url'', JStr ''a.com'')]))), Process]
     = [Some (progress_event ''J1'' 40 2 0),
        Some (item_event ''J1'' ''a.com'' (JObj [(''url'', JStr ''a.com'')]))] \<and>
   observed_progress (snd (run
       [Arrive (Some (progress_event ''J1'' 40 2 0)),
        Arrive (Some (item_event ''J1'' ''a.com'' (JObj [(''url'', JStr ''a.com'')]))), Process]
       (useWebSocket ''ws://host/ws'' True, tracking ''J1'' ''started'' 0 0 0 4))) = Some (JNum 0) \<and>
   observed_progress (fold applyMessage
       [Some (progress_event ''J1'' 40 2 0),
        Some (item_event ''J1'' ''a.com'' (JObj [(''url'', JStr ''a.com'')]))]
       (tracking ''J1'' ''started'' 0 0 0 4)) = Some (JNum 40)"
  by (simp add: run_def onmessage_def useWebSocket_def messageEffect_def apply_url_complete
      apply_progress_update is_url_complete_def is_progress_update_def is_current_def
      observed_progress_def on_progress_update_fields tracking_def progress_event_def item_event_def)

text \<open>
  C10, amended: the hook appends every received message to its list in the order of
  receipt, and each processing step decodes and applies exactly the message that is
  last in the list at that moment (none when the list is empty). So when a processing
  step follows every single arrival, all messages are applied in the order received;
  after several arrivals in a row, one processing step applies the last of them only.
\<close>

theorem messages_applied_last_only:
  "run (concat (map (\<lambda>m. [Arrive m, Process]) ms)) (h, s)
     = (h\<lparr>messages := messages h @ ms\<rparr>, fold applyMessage ms s) \<and>
   run (map Arrive ms @ [Process]) (h, s)
     = (h\<lparr>messages := messages h @ ms\<rparr>,
        if messages h @ ms = [] then s else applyMessage (last (messages h @ ms)) s)"
  by (simp add: run_one_by_one run_append run_arrivals) (simp add: run_def messageEffect_def)

section \<open>Properties of the submission handlers\<close>

text \<open>
  C4 at a failing input: the server answers \<open>{status: "started", job_id: "J1"}\<close>. Each
  handler records the job and shows the success toast, then evaluates \<open>pollJobStatus\<close>,
  which is bound nowhere: a ReferenceError is raised inside the \<open>try\<close>. The \<open>catch\<close>
  turns it into the toast of a failed start and ends the loading state, for a job that
  has started.
\<close>

theorem started_job_reported_as_failed:
  "call_global page_globals ''pollJobStatus'' (JStr ''J1'') Home
     = (Home, Some (ReferenceError ''pollJobStatus'')) \<and>
   handleSingleUrlSubmit page_globals (Some (started_response ''J1'')) Home
     = \<lparr>currentJob = Some \<lparr>job_id = JStr ''J1'', job_type = ''single'', status = ''started'',
                            progress = JNum 0, completed = JNum 0, failed = JNum 0, total = JNum 1\<rparr>,
        jobResults = [], isLoading = False,
        notices = [Toast_success ''Scraping started! Check progress below.'' [],
                   Toast_error ''Failed to start scraping'' [], Console_error ''Error:'']\<rparr> \<and>
   handleBulkUpload page_globals (Some (started_response ''J1'')) Home
     = \<lparr>currentJob = Some \<lparr>job_id = JStr ''J1'', job_type = ''bulk'', status = ''started'',
                            progress = JNum 0, completed = JNum 0, failed = JNum 0, total = JNum 0\<rparr>,
        jobResults = [], isLoading = False,
        notices = [Toast_success ''${response.data.message}'' [JStr ''Bulk scraping started''],
                   Toast_error ''Failed to start bulk scraping'' [], Console_error ''Error:'']\<rparr>"
  by (simp add: call_global_def page_globals_def handleSingleUrlSubmit_def handleSingleUrlSubmit_try_def
      handleBulkUpload_def handleBulkUpload_try_def Home_def started_response_def)

section \<open>Properties of the connection hook\<close>


subsection \<open>One loss and its retry\<close>









subsection \<open>Sockets that have not closed and timers that wait\<close>















subsection \<open>After the last socket has closed\<close>











subsection \<open>Opening\<close>




subsection \<open>Backoff within one chain of attempts\<close>









lemma loss_run_same_session: "loss_run es \<Longrightarrow> same_session es"
  by (induction es) (auto simp: loss_run_def same_session_def)





end
